theory Spec2Isabelle
  imports Complex_Main "HOL-Library.Sublist" "HOL-Library.Word"
begin

section \<open>JavaScript values used by the front-end\<close>

text \<open>
  Strings are lists of code units. The strings that the code compares, joins, trims or
  uses as keys are modelled with code units below 256 (Latin-1), which is what
  \<^typ>\<open>char\<close> holds; string literals of the source are ASCII. The texts that the list
  page lower-cases (title, subject and search text) are lists of UTF-16 code units.
\<close>

type_synonym code_unit = "16 word"

type_synonym ustring = "code_unit list"

text \<open>A text whose code units are all below 256, written as a literal.\<close>

definition utf16 :: "string \<Rightarrow> ustring" where
  "utf16 s = map of_char s"

definition digit_char :: "nat \<Rightarrow> char" where
  "digit_char d = ''0123456789'' ! d"

text \<open>
  The decimal rendering that a template literal gives a non-negative integer
  (\<^verbatim>\<open>`${idx + 1}`\<close>).
\<close>

fun show_nat :: "nat \<Rightarrow> string" where
  "show_nat n = (if n < 10 then [digit_char n] else show_nat (n div 10) @ [digit_char (n mod 10)])"

declare show_nat.simps [simp del]

text \<open>\<^verbatim>\<open>Array.prototype.join\<close> on an array of strings.\<close>

fun array_join :: "string \<Rightarrow> string list \<Rightarrow> string" where
  "array_join sep [] = []"
| "array_join sep [x] = x"
| "array_join sep (x # y # ys) = x @ sep @ array_join sep (y # ys)"

text \<open>\<^verbatim>\<open>Array.prototype.map\<close> with the callback's second argument, the index.\<close>

definition array_map_idx :: "('a \<Rightarrow> nat \<Rightarrow> 'b) \<Rightarrow> 'a list \<Rightarrow> 'b list" where
  "array_map_idx f xs = map (\<lambda>(i, x). f x i) (enumerate 0 xs)"

text \<open>
  \<^verbatim>\<open>String.prototype.toLowerCase\<close> belongs to the platform. It follows the Unicode
  case mappings, is sensitive to context (a capital sigma at the end of a word gets the
  final form) and can change the length of a text, so it is a parameter of the model:
  any function from texts to texts.
\<close>

type_synonym to_lower_case = "ustring \<Rightarrow> ustring"

text \<open>\<^verbatim>\<open>String.prototype.includes\<close> from position 0.\<close>

fun string_includes :: "'a list \<Rightarrow> 'a list \<Rightarrow> bool" where
  "string_includes [] searchString = (searchString = [])"
| "string_includes (c # cs) searchString =
     (prefix searchString (c # cs) \<or> string_includes cs searchString)"

text \<open>
  \<^verbatim>\<open>String.prototype.trim\<close>: the white space and line terminators below 256 are
  tab, line feed, vertical tab, form feed, carriage return, space and no-break space.
\<close>

definition is_whitespace :: "char \<Rightarrow> bool" where
  "is_whitespace c = ((of_char c :: nat) \<in> {9, 10, 11, 12, 13, 32, 160})"

definition trim :: "string \<Rightarrow> string" where
  "trim s = rev (dropWhile is_whitespace (rev (dropWhile is_whitespace s)))"

subsection \<open>Objects of type \<^verbatim>\<open>Record<string, string>\<close>\<close>

text \<open>
  An object is the list of its own properties in the order in which
  \<^verbatim>\<open>Object.entries\<close> and object spread enumerate them: first the keys that are
  array indices (the canonical decimal form of an integer from 0 to \<open>2\<^sup>3\<^sup>2 - 2\<close>) in
  ascending numeric order, then every other key in the order of its creation.
\<close>

type_synonym js_object = "(string \<times> string) list"

definition is_digit :: "char \<Rightarrow> bool" where
  "is_digit c = (c \<in> set ''0123456789'')"

definition digit_val :: "char \<Rightarrow> nat" where
  "digit_val c = of_char c - 48"

definition str_to_nat :: "string \<Rightarrow> nat" where
  "str_to_nat s = foldl (\<lambda>n c. 10 * n + digit_val c) 0 s"

definition is_array_index :: "string \<Rightarrow> bool" where
  "is_array_index s =
     (s \<noteq> [] \<and> list_all is_digit s \<and> (s = ''0'' \<or> hd s \<noteq> CHR ''0'')
      \<and> str_to_nat s < 2 ^ 32 - 1)"

definition has_key :: "js_object \<Rightarrow> string \<Rightarrow> bool" where
  "has_key obj k = (k \<in> set (map fst obj))"

text \<open>A new array-index key goes after the array-index keys that are numerically smaller.\<close>

fun insert_index :: "string \<Rightarrow> string \<Rightarrow> js_object \<Rightarrow> js_object" where
  "insert_index k v [] = [(k, v)]"
| "insert_index k v ((k', v') # rest) =
     (if is_array_index k' \<and> str_to_nat k' < str_to_nat k
      then (k', v') # insert_index k v rest
      else (k, v) # (k', v') # rest)"

text \<open>
  Defining an own property, as a computed key \<^verbatim>\<open>[k]: v\<close> of an object literal and
  object spread do: an existing key keeps its place and takes the new value, a new key
  is created, whatever its name.
\<close>

definition obj_define :: "js_object \<Rightarrow> string \<Rightarrow> string \<Rightarrow> js_object" where
  "obj_define obj k v =
     (if has_key obj k then map (\<lambda>(k', v'). if k' = k then (k', v) else (k', v')) obj
      else if is_array_index k then insert_index k v obj
      else obj @ [(k, v)])"

text \<open>
  The assignment \<^verbatim>\<open>obj[k] = v\<close> of a string to an object made by \<^verbatim>\<open>{}\<close>. A key
  that the object owns takes the new value. For a key that it does not own the
  prototype is asked first: \<^verbatim>\<open>Object.prototype\<close> has one accessor, \<^verbatim>\<open>__proto__\<close>,
  and its setter ignores a value that is neither an object nor \<^verbatim>\<open>null\<close>, so under
  that name nothing is created; every other name is created on the object.
\<close>

definition obj_set :: "js_object \<Rightarrow> string \<Rightarrow> string \<Rightarrow> js_object" where
  "obj_set obj k v =
     (if has_key obj k then obj_define obj k v
      else if k = ''__proto__'' then obj
      else obj_define obj k v)"

text \<open>Object spread \<^verbatim>\<open>{...prev}\<close>: a fresh object that receives the properties in order.\<close>

definition obj_spread :: "js_object \<Rightarrow> js_object" where
  "obj_spread prev = foldl (\<lambda>obj (k, v). obj_define obj k v) [] prev"

definition Object_entries :: "js_object \<Rightarrow> (string \<times> string) list" where
  "Object_entries obj = obj"

text \<open>
  The lists that are objects: no key twice, and a key that is an array index is preceded
  only by array indices that are numerically smaller.
\<close>

fun index_keys_first :: "string list \<Rightarrow> bool" where
  "index_keys_first [] = True"
| "index_keys_first (k # ks) =
     (list_all (\<lambda>k'. is_array_index k' \<longrightarrow> is_array_index k \<and> str_to_nat k < str_to_nat k') ks
      \<and> index_keys_first ks)"

definition wf_object :: "js_object \<Rightarrow> bool" where
  "wf_object obj = (distinct (map fst obj) \<and> index_keys_first (map fst obj))"

subsection \<open>Dynamically typed values, exceptions, effects\<close>

text \<open>
  The values of type \<^verbatim>\<open>any\<close> that the code handles: what \<^verbatim>\<open>JSON.parse\<close> and a
  response body can hold, and \<^verbatim>\<open>undefined\<close>.
\<close>

datatype jsval =
    JUndefined
  | JNull
  | JBool bool
  | JNum real
  | JStr string
  | JArr "jsval list"
  | JObj "(string \<times> jsval) list"

text \<open>The test of \<^verbatim>\<open>if (x)\<close>, \<^verbatim>\<open>!x\<close> and \<^verbatim>\<open>x ? a : b\<close>.\<close>

fun truthy :: "jsval \<Rightarrow> bool" where
  "truthy JUndefined = False"
| "truthy JNull = False"
| "truthy (JBool b) = b"
| "truthy (JNum r) = (r \<noteq> 0)"
| "truthy (JStr s) = (s \<noteq> [])"
| "truthy (JArr xs) = True"
| "truthy (JObj ps) = True"

text \<open>
  The property read \<^verbatim>\<open>user.id\<close> on a value that is neither \<^verbatim>\<open>null\<close> nor
  \<^verbatim>\<open>undefined\<close>: only an object can own a property of that name.
\<close>

fun get_id :: "jsval \<Rightarrow> jsval" where
  "get_id (JObj ps) = (case map_of ps ''id'' of Some v \<Rightarrow> v | None \<Rightarrow> JUndefined)"
| "get_id v = JUndefined"

text \<open>What a call can throw, or a promise reject with.\<close>

datatype js_error =
    NetworkError
  | HttpError nat
  | SyntaxError
  | TypeError
  | OtherError string

text \<open>What a handler does besides changing the state of its component.\<close>

datatype effect =
    Alert string
  | ConsoleError string js_error
  | HttpPost string jsval
  | Unhandled js_error

fun is_network_call :: "effect \<Rightarrow> bool" where
  "is_network_call (HttpPost url body) = True"
| "is_network_call e = False"

text \<open>
  The platform and the backend are parameters of the model: \<^verbatim>\<open>axios.post(url, body)\<close>
  either rejects or resolves to a response whose \<^verbatim>\<open>data\<close> is returned here;
  \<^verbatim>\<open>JSON.parse\<close> either throws or returns a value; \<^verbatim>\<open>localStorage\<close> maps keys to
  strings.
\<close>

type_synonym axios_post = "string \<Rightarrow> jsval \<Rightarrow> js_error + jsval"

type_synonym json_parse = "string \<Rightarrow> js_error + jsval"

type_synonym local_storage = "string \<rightharpoonup> string"

section \<open>types.ts\<close>

datatype AssignmentType = MCQ | WRITTEN | PROJECT

fun AssignmentType_str :: "AssignmentType \<Rightarrow> string" where
  "AssignmentType_str MCQ = ''Multiple Choice''"
| "AssignmentType_str WRITTEN = ''Written Response''"
| "AssignmentType_str PROJECT = ''Project Based''"

datatype Difficulty = EASY | MEDIUM | HARD

fun Difficulty_str :: "Difficulty \<Rightarrow> string" where
  "Difficulty_str EASY = ''Elementary''"
| "Difficulty_str MEDIUM = ''Intermediate''"
| "Difficulty_str HARD = ''Advanced''"

datatype Status = Draft | Published | Archived


record Question =
  q_id :: string
  q_text :: string
  q_options :: "string list option"
  q_correctAnswer :: "string option"
  q_rubric :: "string option"

record Assignment =
  a_id :: string
  title :: ustring
  subject :: ustring
  a_type :: AssignmentType
  a_difficulty :: Difficulty
  questions :: "Question list"
  createdAt :: string
  dueDate :: string
  status :: Status

section \<open>services/authService.ts\<close>

text \<open>
  \<^verbatim>\<open>
  export const getCurrentUser = () => {
    const user = localStorage.getItem('user');
    return user ? JSON.parse(user) : null;
  };
  \<close>
  \<^verbatim>\<open>getItem\<close> gives \<^verbatim>\<open>null\<close> for a key that is not stored; \<^verbatim>\<open>null\<close> and the
  empty string are the falsy outcomes.
\<close>

definition getCurrentUser :: "json_parse \<Rightarrow> local_storage \<Rightarrow> js_error + jsval" where
  "getCurrentUser JSON_parse storage =
     (case storage ''user'' of
        None \<Rightarrow> Inr JNull
      | Some user \<Rightarrow> if user \<noteq> [] then JSON_parse user else Inr JNull)"

section \<open>services/geminiService.ts\<close>

definition API_URL :: string where
  "API_URL = ''http://localhost:8000''"

text \<open>
  \<^verbatim>\<open>
  export const generateContent = async (topic, type, difficulty) => {
    try {
      const response = await axios.post(`${API_URL}/assignments/generate`,
                                        { topic, type, difficulty });
      return response.data;
    } catch (error) {
      console.error("API Error generating content:", error);
      return [];
    }
  };
  \<close>
  The result is what the returned promise settles to: \<open>Inl\<close> a rejection, \<open>Inr\<close> a value.
\<close>

definition generateContent ::
  "axios_post \<Rightarrow> string \<Rightarrow> AssignmentType \<Rightarrow> Difficulty \<Rightarrow> (js_error + jsval) \<times> effect list"
where
  "generateContent post topic type difficulty =
     (let url = API_URL @ ''/assignments/generate'';
          body = JObj [(''topic'', JStr topic),
                       (''type'', JStr (AssignmentType_str type)),
                       (''difficulty'', JStr (Difficulty_str difficulty))]
      in case post url body of
           Inr data \<Rightarrow> (Inr data, [HttpPost url body])
         | Inl error \<Rightarrow>
             (Inr (JArr []),
              [HttpPost url body, ConsoleError ''API Error generating content:'' error]))"

text \<open>The earlier revision of the service logs another message and is otherwise the same.\<close>

definition generateContent_rev0 ::
  "axios_post \<Rightarrow> string \<Rightarrow> AssignmentType \<Rightarrow> Difficulty \<Rightarrow> (js_error + jsval) \<times> effect list"
where
  "generateContent_rev0 post topic type difficulty =
     (let url = API_URL @ ''/assignments/generate'';
          body = JObj [(''topic'', JStr topic),
                       (''type'', JStr (AssignmentType_str type)),
                       (''difficulty'', JStr (Difficulty_str difficulty))]
      in case post url body of
           Inr data \<Rightarrow> (Inr data, [HttpPost url body])
         | Inl error \<Rightarrow> (Inr (JArr []), [HttpPost url body, ConsoleError ''API Error'' error]))"

text \<open>
  \<^verbatim>\<open>
  export const autoGradeSubmission = async (assignmentId, studentId, answerText) => {
    try {
      const response = await axios.post(`${API_URL}/student/grade`, {
        assignment_id: assignmentId, student_id: studentId, answer_text: answerText });
      return response.data; // Returns { score, feedback }
    } catch (error) {
      console.error("Grading Error:", error);
      return { score: 0, feedback: "Error connecting to grading service." };
    }
  };
  \<close>
  The portal passes \<^verbatim>\<open>user.id\<close> of a value of type \<^verbatim>\<open>any\<close> as the student.
\<close>

definition autoGradeSubmission ::
  "axios_post \<Rightarrow> string \<Rightarrow> jsval \<Rightarrow> string \<Rightarrow> (js_error + jsval) \<times> effect list"
where
  "autoGradeSubmission post assignmentId studentId answerText =
     (let url = API_URL @ ''/student/grade'';
          body = JObj [(''assignment_id'', JStr assignmentId),
                       (''student_id'', studentId),
                       (''answer_text'', JStr answerText)]
      in case post url body of
           Inr data \<Rightarrow> (Inr data, [HttpPost url body])
         | Inl error \<Rightarrow>
             (Inr (JObj [(''score'', JNum 0),
                         (''feedback'', JStr ''Error connecting to grading service.'')]),
              [HttpPost url body, ConsoleError ''Grading Error:'' error]))"

text \<open>The earlier revision grades a question, an answer and a rubric.\<close>

definition autoGradeSubmission_rev0 ::
  "axios_post \<Rightarrow> string \<Rightarrow> string \<Rightarrow> string \<Rightarrow> (js_error + jsval) \<times> effect list"
where
  "autoGradeSubmission_rev0 post question answer rubric =
     (let url = API_URL @ ''/student/grade'';
          body = JObj [(''question'', JStr question),
                       (''answer'', JStr answer),
                       (''rubric'', JStr rubric)]
      in case post url body of
           Inr data \<Rightarrow> (Inr data, [HttpPost url body])
         | Inl error \<Rightarrow>
             (Inr (JObj [(''score'', JNum 0),
                         (''feedback'', JStr ''Error connecting to AI grading service.'')]),
              [HttpPost url body, ConsoleError ''Grading Error'' error]))"

text \<open>
  Modelled from the spec: \<^verbatim>\<open>getAssignment\<close>, which the student portal imports from
  this service and which none of the available revisions of the service defines. The
  specification gives it as \<^verbatim>\<open>GET /assignments/{id}\<close>: it returns the Assignment, or
  fails with a NotFound-shaped error when the identifier is unrecognized by the backend.
  The backend is the table of the assignments it recognizes.
\<close>

definition NotFound :: js_error where
  "NotFound = HttpError 404"

definition getAssignment :: "(string \<rightharpoonup> Assignment) \<Rightarrow> string \<Rightarrow> js_error + Assignment" where
  "getAssignment backend ident =
     (case backend ident of Some assignment \<Rightarrow> Inr assignment | None \<Rightarrow> Inl NotFound)"

section \<open>pages/StudentPortal.tsx\<close>

definition newline :: char where
  "newline = CHR 0x0A"

text \<open>
  \<^verbatim>\<open>
  const formattedSubmission = Object.entries(answers)
    .map(([qId, ans], idx) => `Q${idx + 1}: ${ans}`)
    .join("\n\n");
  \<close>
\<close>

definition formattedSubmission :: "js_object \<Rightarrow> string" where
  "formattedSubmission answers =
     array_join [newline, newline]
       (array_map_idx (\<lambda>(qId, ans) idx. ''Q'' @ show_nat (idx + 1) @ '': '' @ ans)
          (Object_entries answers))"

text \<open>
  The state of the component, one field per \<^verbatim>\<open>useState\<close>. A handler is a function
  from the state in which it is called to the state after its last update, with the
  effects in order; it runs without another event in between.
\<close>

record portal =
  step :: nat
  assignmentId :: string
  assignmentData :: "Assignment option"
  answers :: js_object
  feedback :: jsval
  loading :: bool

definition initial_portal :: portal where
  "initial_portal =
     \<lparr>step = 1, assignmentId = [], assignmentData = None, answers = [],
      feedback = JNull, loading = False\<rparr>"

text \<open>
  \<^verbatim>\<open>
  const initialAnswers: Record<string, string> = {};
  data.questions.forEach((q: any) => initialAnswers[q.id] = "");
  \<close>
\<close>

definition initialAnswers :: "Question list \<Rightarrow> js_object" where
  "initialAnswers qs = foldl (\<lambda>obj q. obj_set obj (q_id q) []) [] qs"

text \<open>
  \<^verbatim>\<open>
  const handleLoadAssignment = async () => {
    if (!assignmentId) return alert("Please enter an ID");
    setLoading(true);
    try {
      const data = await getAssignment(assignmentId.trim());
      setAssignmentData(data);
      const initialAnswers: Record<string, string> = {};
      data.questions.forEach((q: any) => initialAnswers[q.id] = "");
      setAnswers(initialAnswers);
      setStep(2);
    } catch (error) {
      alert("Assignment not found! Check the ID.");
    } finally {
      setLoading(false);
    }
  };
  \<close>
  The call of \<^verbatim>\<open>getAssignment\<close> is a parameter: any function from the identifier to
  a rejection or an Assignment.
\<close>

definition handleLoadAssignment ::
  "(string \<Rightarrow> js_error + Assignment) \<Rightarrow> portal \<Rightarrow> portal \<times> effect list"
where
  "handleLoadAssignment fetch st =
     (if assignmentId st = [] then (st, [Alert ''Please enter an ID''])
      else
        let st1 = st\<lparr>loading := True\<rparr>
        in case fetch (trim (assignmentId st)) of
             Inr data \<Rightarrow>
               (st1\<lparr>assignmentData := Some data,
                    answers := initialAnswers (questions data),
                    step := 2,
                    loading := False\<rparr>, [])
           | Inl error \<Rightarrow>
               (st1\<lparr>loading := False\<rparr>, [Alert ''Assignment not found! Check the ID.'']))"

text \<open>
  \<^verbatim>\<open>
  const handleAnswerChange = (questionId: string, value: string) => {
    setAnswers(prev => ({ ...prev, [questionId]: value }));
  };
  \<close>
\<close>

definition handleAnswerChange :: "string \<Rightarrow> string \<Rightarrow> portal \<Rightarrow> portal" where
  "handleAnswerChange questionId val st =
     st\<lparr>answers := obj_define (obj_spread (answers st)) questionId val\<rparr>"

text \<open>
  \<^verbatim>\<open>
  const handleSubmit = async () => {
    const user = getCurrentUser();
    if (!user) return alert("Please login first");
    setLoading(true);
    const formattedSubmission = ...;
    try {
      const result = await autoGradeSubmission(assignmentId, user.id, formattedSubmission);
      setFeedback(result);
    } catch (error) {
      alert("Error submitting assignment.");
    } finally {
      setLoading(false);
    }
  };
  \<close>
  An exception of \<^verbatim>\<open>JSON.parse\<close> leaves the handler before any update.
\<close>

definition handleSubmit ::
  "json_parse \<Rightarrow> local_storage \<Rightarrow> axios_post \<Rightarrow> portal \<Rightarrow> portal \<times> effect list"
where
  "handleSubmit JSON_parse storage post st =
     (case getCurrentUser JSON_parse storage of
        Inl error \<Rightarrow> (st, [Unhandled error])
      | Inr user \<Rightarrow>
          if \<not> truthy user then (st, [Alert ''Please login first''])
          else
            let st1 = st\<lparr>loading := True\<rparr>;
                (result, effects) =
                  autoGradeSubmission post (assignmentId st) (get_id user)
                    (formattedSubmission (answers st))
            in (case result of
                  Inr data \<Rightarrow> (st1\<lparr>feedback := data, loading := False\<rparr>, effects)
                | Inl error \<Rightarrow>
                    (st1\<lparr>loading := False\<rparr>,
                     effects @ [Alert ''Error submitting assignment.''])))"

text \<open>
  The portal of the earlier revision keeps one answer text instead of the Answer Map and
  submits it as it is; its guard on the user is the same.
\<close>

record portal_rev0 =
  step0 :: nat
  assignmentId0 :: string
  assignmentData0 :: "Assignment option"
  answer0 :: string
  feedback0 :: jsval
  loading0 :: bool

definition initial_portal_rev0 :: portal_rev0 where
  "initial_portal_rev0 =
     \<lparr>step0 = 1, assignmentId0 = [], assignmentData0 = None, answer0 = [],
      feedback0 = JNull, loading0 = False\<rparr>"

text \<open>
  Its load step passes the identifier as it is (the input field trims it) and seeds
  nothing:
  \<^verbatim>\<open>
      const data = await getAssignment(assignmentId);
      setAssignmentData(data);
      setStep(2); // Move to next screen
  \<close>
\<close>

definition handleLoadAssignment_rev0 ::
  "(string \<Rightarrow> js_error + Assignment) \<Rightarrow> portal_rev0 \<Rightarrow> portal_rev0 \<times> effect list"
where
  "handleLoadAssignment_rev0 fetch st =
     (if assignmentId0 st = [] then (st, [Alert ''Please enter an ID''])
      else
        let st1 = st\<lparr>loading0 := True\<rparr>
        in case fetch (assignmentId0 st) of
             Inr data \<Rightarrow> (st1\<lparr>assignmentData0 := Some data, step0 := 2, loading0 := False\<rparr>, [])
           | Inl error \<Rightarrow>
               (st1\<lparr>loading0 := False\<rparr>, [Alert ''Assignment not found! Check the ID.'']))"

definition handleSubmit_rev0 ::
  "json_parse \<Rightarrow> local_storage \<Rightarrow> axios_post \<Rightarrow> portal_rev0 \<Rightarrow> portal_rev0 \<times> effect list"
where
  "handleSubmit_rev0 JSON_parse storage post st =
     (case getCurrentUser JSON_parse storage of
        Inl error \<Rightarrow> (st, [Unhandled error])
      | Inr user \<Rightarrow>
          if \<not> truthy user then (st, [Alert ''Please login first''])
          else
            let st1 = st\<lparr>loading0 := True\<rparr>;
                (result, effects) =
                  autoGradeSubmission post (assignmentId0 st) (get_id user) (answer0 st)
            in (case result of
                  Inr data \<Rightarrow> (st1\<lparr>feedback0 := data, loading0 := False\<rparr>, effects)
                | Inl error \<Rightarrow>
                    (st1\<lparr>loading0 := False\<rparr>,
                     effects @ [Alert ''Error submitting assignment.''])))"

text \<open>
  The inputs that the second step shows, under \<^verbatim>\<open>step === 2 && assignmentData\<close>: for
  each question either one radio button per option (\<^verbatim>\<open>name = q.id\<close>,
  \<^verbatim>\<open>value = opt\<close>) or a text area. Their \<^verbatim>\<open>onChange\<close> is the only caller of
  \<^verbatim>\<open>handleAnswerChange\<close>, with \<^verbatim>\<open>q.id\<close> and the value of the input.
\<close>

datatype input_control = Radio string string | Textarea string

definition question_inputs :: "Question \<Rightarrow> input_control list" where
  "question_inputs q =
     (case q_options q of
        Some opts \<Rightarrow> if length opts > 0 then map (Radio (q_id q)) opts else [Textarea (q_id q)]
      | None \<Rightarrow> [Textarea (q_id q)])"

definition rendered_inputs :: "portal \<Rightarrow> input_control list" where
  "rendered_inputs st =
     (if step st = 2 then
        (case assignmentData st of
           Some data \<Rightarrow> concat (map question_inputs (questions data))
         | None \<Rightarrow> [])
      else [])"

inductive answer_update :: "portal \<Rightarrow> portal \<Rightarrow> bool" where
  radio_change: "Radio questionId opt \<in> set (rendered_inputs st)
           \<Longrightarrow> answer_update st (handleAnswerChange questionId opt st)"
| textarea_change: "Textarea questionId \<in> set (rendered_inputs st)
           \<Longrightarrow> answer_update st (handleAnswerChange questionId val st)"

text \<open>
  The Answer Map belongs to the loaded assignment: it is an object whose keys are the
  identifiers of the questions.
\<close>

definition answers_match :: "Assignment \<Rightarrow> portal \<Rightarrow> bool" where
  "answers_match d st =
     (assignmentData st = Some d \<and> wf_object (answers st)
      \<and> set (map fst (answers st)) = q_id ` set (questions d))"

text \<open>
  The flattening as the specification words it: one numbered item per entry, counted
  from a starting number, in the order of the entries.
\<close>

fun numbered_lines :: "nat \<Rightarrow> (string \<times> string) list \<Rightarrow> string list" where
  "numbered_lines n [] = []"
| "numbered_lines n ((qId, ans) # es) =
     (''Q'' @ show_nat n @ '': '' @ ans) # numbered_lines (Suc n) es"

section \<open>pages/AssignmentsList.tsx\<close>

text \<open>
  \<^verbatim>\<open>
  const filteredAssignments = assignments.filter(a => {
    const matchesSearch = a.title.toLowerCase().includes(searchTerm.toLowerCase()) ||
                          a.subject.toLowerCase().includes(searchTerm.toLowerCase());
    const matchesStatus = statusFilter === 'All' || a.status === statusFilter;
    return matchesSearch && matchesStatus;
  });
  \<close>
\<close>

definition matchesSearch :: "to_lower_case \<Rightarrow> ustring \<Rightarrow> Assignment \<Rightarrow> bool" where
  "matchesSearch toLowerCase searchTerm a =
     (string_includes (toLowerCase (title a)) (toLowerCase searchTerm)
      \<or> string_includes (toLowerCase (subject a)) (toLowerCase searchTerm))"



text \<open>One text occurs in another: some stretch of the second is the first.\<close>

definition occurs_in :: "'a list \<Rightarrow> 'a list \<Rightarrow> bool" where
  "occurs_in s t = (\<exists>before after. t = before @ s @ after)"

section \<open>Example data\<close>

text \<open>
  A \<^verbatim>\<open>JSON.parse\<close> for the examples: it knows three texts and takes every other text
  as malformed. The empty text is malformed for \<^verbatim>\<open>JSON.parse\<close> itself.
\<close>

definition sample_parse :: json_parse where
  \<open>sample_parse s =
     (if s = ''{"id":7}'' then Inr (JObj [(''id'', JNum 7)])
      else if s = ''null'' then Inr JNull
      else if s = ''0'' then Inr (JNum 0)
      else Inl SyntaxError)\<close>

definition question_one :: Question where
  "question_one =
     \<lparr>q_id = ''q1'', q_text = ''What does a leaf need for photosynthesis?'',
      q_options = Some [''Light'', ''Sand''], q_correctAnswer = Some ''Light'',
      q_rubric = None\<rparr>"

definition question_two :: Question where
  "question_two =
     \<lparr>q_id = ''q2'', q_text = ''Explain the light reaction.'',
      q_options = None, q_correctAnswer = None, q_rubric = Some ''Names ATP and NADPH''\<rparr>"

definition question_one_again :: Question where
  "question_one_again = question_one\<lparr>q_text := ''Where does photosynthesis happen?''\<rparr>"

definition assignment_X :: Assignment where
  "assignment_X =
     \<lparr>a_id = ''X'', title = utf16 ''Introduction to Photosynthesis'',
       subject = utf16 ''Biology 101'',
      a_type = MCQ, a_difficulty = EASY, questions = [question_one, question_two],
      createdAt = ''2024-03-10'', dueDate = ''2024-03-20'', status = Published\<rparr>"

text \<open>An assignment whose two questions carry the same identifier.\<close>

definition assignment_T :: Assignment where
  "assignment_T = assignment_X\<lparr>a_id := ''T'', questions := [question_one, question_one_again]\<rparr>"

text \<open>An assignment whose one question has the identifier \<^verbatim>\<open>__proto__\<close>.\<close>

definition question_proto :: Question where
  "question_proto = question_two\<lparr>q_id := ''__proto__''\<rparr>"

definition assignment_P :: Assignment where
  "assignment_P = assignment_X\<lparr>a_id := ''P'', questions := [question_proto]\<rparr>"

definition proto_backend :: "string \<rightharpoonup> Assignment" where
  "proto_backend = Map.empty(''P'' \<mapsto> assignment_P)"

definition sample_backend :: "string \<rightharpoonup> Assignment" where
  "sample_backend = Map.empty(''X'' \<mapsto> assignment_X, ''T'' \<mapsto> assignment_T)"







section \<open>Properties\<close>

subsection \<open>Flattening the answers\<close>

lemma enumerate_numbered_lines:
  "map (\<lambda>(i, x). (\<lambda>(qId, ans) idx. ''Q'' @ show_nat (idx + 1) @ '': '' @ ans) x i)
       (enumerate n es) = numbered_lines (Suc n) es"
  by (induction es arbitrary: n) auto

lemma length_numbered_lines: "length (numbered_lines n es) = length es"
  by (induction n es rule: numbered_lines.induct) auto

lemma nth_numbered_lines:
  "i < length es \<Longrightarrow>
     numbered_lines n es ! i = ''Q'' @ show_nat (n + i) @ '': '' @ snd (es ! i)"
proof (induction n es arbitrary: i rule: numbered_lines.induct)
  case (1 n)
  then show ?case by simp
next
  case (2 n qId ans es)
  then show ?case by (cases i) auto
qed

text \<open>
  C3. The submit step flattens the Answer Map into the items
  \<open>Q1: a\<^sub>1\<close>, \<open>Q2: a\<^sub>2\<close>, ... , one per map entry, numbered from 1 in
  the order of the entries, and joins them with a blank line (two line feeds); the map
  \<open>{q1: "A", q2: "B"}\<close> gives exactly \<open>Q1: A\<close>, blank line, \<open>Q2: B\<close>.
\<close>

theorem formattedSubmission_numbered:
  "formattedSubmission obj = array_join [newline, newline] (numbered_lines 1 obj)
   \<and> length (numbered_lines 1 obj) = length obj
   \<and> (\<forall>i < length obj.
        numbered_lines 1 obj ! i = ''Q'' @ show_nat (i + 1) @ '': '' @ snd (obj ! i))
   \<and> formattedSubmission [(''q1'', ''A''), (''q2'', ''B'')]
        = ''Q1: A'' @ [CHR 0x0A, CHR 0x0A] @ ''Q2: B''"
proof (intro conjI allI impI)
  show flat: "formattedSubmission obj
      = array_join [newline, newline] (numbered_lines 1 obj)" for obj
    using enumerate_numbered_lines [of 0 obj]
    by (simp add: formattedSubmission_def array_map_idx_def Object_entries_def)
  show "length (numbered_lines 1 obj) = length obj"
    by (rule length_numbered_lines)
  show "numbered_lines 1 obj ! i = ''Q'' @ show_nat (i + 1) @ '': '' @ snd (obj ! i)"
    if "i < length obj" for i
    using nth_numbered_lines [OF that, of 1] by (simp add: add.commute)
  show "formattedSubmission [(''q1'', ''A''), (''q2'', ''B'')]
        = ''Q1: A'' @ [CHR 0x0A, CHR 0x0A] @ ''Q2: B''"
    by (simp add: flat show_nat.simps digit_char_def newline_def)
qed

theorem formattedSubmission_numbered_witness:
  "formattedSubmission [(''7'', ''x''), (''q2'', ''''), (''q3'', ''yes'')]
     = ''Q1: x'' @ [CHR 0x0A, CHR 0x0A] @ ''Q2: '' @ [CHR 0x0A, CHR 0x0A] @ ''Q3: yes''
   \<and> (1::nat) < length [(''7'', ''x''), (''q2'', ''''), (''q3'', ''yes'')]
   \<and> numbered_lines 1 [(''7'', ''x''), (''q2'', ''''), (''q3'', ''yes'')] ! 1 = ''Q2: ''"
  using formattedSubmission_numbered [of "[(''7'', ''x''), (''q2'', ''''), (''q3'', ''yes'')]"]
  by (simp add: show_nat.simps digit_char_def newline_def)

subsection \<open>The API client\<close>

text \<open>
  C5. Whatever the HTTP request does, the promise of \<^verbatim>\<open>generateContent\<close> settles to
  a value, never to a rejection; when the request rejects, the value is the empty
  sequence. Both revisions of the service.
\<close>

theorem generateContent_failure_empty:
  "(post (API_URL @ ''/assignments/generate'')
         (JObj [(''topic'', JStr topic), (''type'', JStr (AssignmentType_str ty)),
                (''difficulty'', JStr (Difficulty_str d))]) = Inl e
     \<longrightarrow> fst (generateContent post topic ty d) = Inr (JArr [])
         \<and> fst (generateContent_rev0 post topic ty d) = Inr (JArr []))
   \<and> (\<exists>v. fst (generateContent post topic ty d) = Inr v)
   \<and> (\<exists>v. fst (generateContent_rev0 post topic ty d) = Inr v)"
  by (simp add: generateContent_def generateContent_rev0_def Let_def split: sum.split)

theorem generateContent_failure_empty_witness:
  "fst (generateContent (\<lambda>url body. Inl NetworkError) ''Photosynthesis'' MCQ EASY) = Inr (JArr [])
   \<and> fst (generateContent_rev0 (\<lambda>url body. Inl (HttpError 500)) ''Hamlet'' WRITTEN HARD)
       = Inr (JArr [])"
  using generateContent_failure_empty [of "\<lambda>url body. Inl NetworkError" "''Photosynthesis''" MCQ EASY NetworkError]
    generateContent_failure_empty [of "\<lambda>url body. Inl (HttpError 500)" "''Hamlet''" WRITTEN HARD "HttpError 500"]
  by simp

text \<open>
  C6. When the HTTP request rejects, \<^verbatim>\<open>autoGradeSubmission\<close> returns the sentinel
  Feedback with score 0 and the fixed fallback message of its revision; in every case
  its promise settles to a value, never to a rejection.
\<close>

theorem autoGradeSubmission_failure_sentinel:
  "(post (API_URL @ ''/student/grade'')
         (JObj [(''assignment_id'', JStr aid), (''student_id'', sid),
                (''answer_text'', JStr txt)]) = Inl e
     \<longrightarrow> fst (autoGradeSubmission post aid sid txt)
           = Inr (JObj [(''score'', JNum 0),
                        (''feedback'', JStr ''Error connecting to grading service.'')]))
   \<and> (post (API_URL @ ''/student/grade'')
         (JObj [(''question'', JStr question), (''answer'', JStr answer),
                (''rubric'', JStr rubric)]) = Inl e
     \<longrightarrow> fst (autoGradeSubmission_rev0 post question answer rubric)
           = Inr (JObj [(''score'', JNum 0),
                        (''feedback'', JStr ''Error connecting to AI grading service.'')]))
   \<and> (\<exists>v. fst (autoGradeSubmission post aid sid txt) = Inr v)
   \<and> (\<exists>v. fst (autoGradeSubmission_rev0 post question answer rubric) = Inr v)"
  by (simp add: autoGradeSubmission_def autoGradeSubmission_rev0_def Let_def split: sum.split)

theorem autoGradeSubmission_failure_sentinel_witness:
  "fst (autoGradeSubmission (\<lambda>url body. Inl NetworkError) ''X'' (JNum 7) ''Q1: A'')
     = Inr (JObj [(''score'', JNum 0),
                  (''feedback'', JStr ''Error connecting to grading service.'')])
   \<and> fst (autoGradeSubmission_rev0 (\<lambda>url body. Inl NetworkError) ''q'' ''a'' ''r'')
     = Inr (JObj [(''score'', JNum 0),
                  (''feedback'', JStr ''Error connecting to AI grading service.'')])"
  using autoGradeSubmission_failure_sentinel
    [of "\<lambda>url body. Inl NetworkError" "''X''" "JNum 7" "''Q1: A''" NetworkError "''q''" "''a''" "''r''"]
  by simp

text \<open>
  C4. For every identifier, \<^verbatim>\<open>getAssignment\<close> either returns the Assignment that the
  backend holds under it, or fails with the NotFound error when the backend does not
  recognize the identifier.
\<close>

theorem getAssignment_found_or_NotFound:
  "(\<exists>a. backend ident = Some a \<and> getAssignment backend ident = Inr a)
   \<or> (backend ident = None \<and> getAssignment backend ident = Inl NotFound)"
  by (cases "backend ident") (simp_all add: getAssignment_def)

theorem getAssignment_found_or_NotFound_witness:
  "getAssignment Map.empty ''550e84'' = Inl NotFound \<and> NotFound = HttpError 404"
  using getAssignment_found_or_NotFound [of Map.empty "''550e84''"]
  by (simp add: NotFound_def)

subsection \<open>The session store\<close>

text \<open>
  C10. \<^verbatim>\<open>getCurrentUser\<close> returns \<^verbatim>\<open>null\<close> when no user record is stored: no item
  under the key, or an item with the empty text, which the login never writes. A
  stored record is handed to \<^verbatim>\<open>JSON.parse\<close>, and its result is the result. On an
  absent record nothing is thrown.
\<close>

theorem getCurrentUser_result:
  "(storage ''user'' = None \<longrightarrow> getCurrentUser JSON_parse storage = Inr JNull)
   \<and> (storage ''user'' = Some [] \<longrightarrow> getCurrentUser JSON_parse storage = Inr JNull)
   \<and> (\<forall>u. storage ''user'' = Some u \<and> u \<noteq> []
          \<longrightarrow> getCurrentUser JSON_parse storage = JSON_parse u)"
  by (simp add: getCurrentUser_def)

theorem getCurrentUser_result_witness:
  \<open>getCurrentUser sample_parse Map.empty = Inr JNull
   \<and> getCurrentUser sample_parse (Map.empty(''user'' \<mapsto> [])) = Inr JNull
   \<and> getCurrentUser sample_parse (Map.empty(''user'' \<mapsto> ''{"id":7}''))
       = Inr (JObj [(''id'', JNum 7)])
   \<and> getCurrentUser sample_parse (Map.empty(''user'' \<mapsto> ''{"id":'')) = Inl SyntaxError\<close>
  using getCurrentUser_result [of Map.empty sample_parse]
    getCurrentUser_result [of "Map.empty(''user'' \<mapsto> [])" sample_parse]
    getCurrentUser_result [of \<open>Map.empty(''user'' \<mapsto> ''{"id":7}'')\<close> sample_parse]
    getCurrentUser_result [of \<open>Map.empty(''user'' \<mapsto> ''{"id":'')\<close> sample_parse]
  by (simp add: sample_parse_def)

subsection \<open>Submitting\<close>

lemma autoGradeSubmission_effects:
  "snd (autoGradeSubmission post aid sid txt) \<noteq> []
   \<and> is_network_call (hd (snd (autoGradeSubmission post aid sid txt)))"
  by (simp add: autoGradeSubmission_def Let_def split: sum.split)

text \<open>
  C2. With no user record in the session store, submit gives the alert and nothing
  else: no network call, and the state of the controller (assignment data, answers,
  feedback, loading flag, step) is the state before. The same holds whenever
  \<^verbatim>\<open>getCurrentUser\<close> does not return a truthy value, and in the earlier revision of
  the portal.
\<close>

theorem handleSubmit_unauthenticated:
  "(storage ''user'' = None
      \<longrightarrow> handleSubmit JSON_parse storage post st = (st, [Alert ''Please login first''])
          \<and> handleSubmit_rev0 JSON_parse storage post st0 = (st0, [Alert ''Please login first'']))
   \<and> ((\<forall>user. getCurrentUser JSON_parse storage = Inr user \<longrightarrow> \<not> truthy user)
      \<longrightarrow> fst (handleSubmit JSON_parse storage post st) = st
          \<and> filter is_network_call (snd (handleSubmit JSON_parse storage post st)) = []
          \<and> fst (handleSubmit_rev0 JSON_parse storage post st0) = st0
          \<and> filter is_network_call (snd (handleSubmit_rev0 JSON_parse storage post st0)) = [])"
  by (auto simp add: handleSubmit_def handleSubmit_rev0_def getCurrentUser_def
        split: sum.split option.split)

theorem handleSubmit_unauthenticated_witness:
  "handleSubmit sample_parse Map.empty (\<lambda>url body. Inr (JObj [(''score'', JNum 90)]))
     (initial_portal\<lparr>step := 2, assignmentId := ''X'', answers := [(''q1'', ''A'')]\<rparr>)
   = (initial_portal\<lparr>step := 2, assignmentId := ''X'', answers := [(''q1'', ''A'')]\<rparr>,
      [Alert ''Please login first''])
   \<and> fst (handleSubmit sample_parse (Map.empty(''user'' \<mapsto> ''null''))
         (\<lambda>url body. Inr (JObj [(''score'', JNum 90)])) initial_portal) = initial_portal"
  using handleSubmit_unauthenticated
      [of Map.empty sample_parse "\<lambda>url body. Inr (JObj [(''score'', JNum 90)])"
          "initial_portal\<lparr>step := 2, assignmentId := ''X'', answers := [(''q1'', ''A'')]\<rparr>"]
    handleSubmit_unauthenticated
      [of "Map.empty(''user'' \<mapsto> ''null'')" sample_parse
          "\<lambda>url body. Inr (JObj [(''score'', JNum 90)])" initial_portal]
  by (simp add: getCurrentUser_def sample_parse_def)

text \<open>With a user logged in the grading endpoint is called, with the flattened answers.\<close>

lemma handleSubmit_logged_in_example:
  \<open>handleSubmit sample_parse (Map.empty(''user'' \<mapsto> ''{"id":7}''))
     (\<lambda>url body. Inr (JObj [(''score'', JNum 90), (''feedback'', JStr ''ok'')]))
     (initial_portal\<lparr>step := 2, assignmentId := ''X'',
        answers := [(''q1'', ''A''), (''q2'', ''B'')]\<rparr>)
   = (initial_portal\<lparr>step := 2, assignmentId := ''X'',
        answers := [(''q1'', ''A''), (''q2'', ''B'')],
        feedback := JObj [(''score'', JNum 90), (''feedback'', JStr ''ok'')]\<rparr>,
      [HttpPost ''http://localhost:8000/student/grade''
         (JObj [(''assignment_id'', JStr ''X''), (''student_id'', JNum 7),
                (''answer_text'', JStr (''Q1: A'' @ [CHR 0x0A, CHR 0x0A] @ ''Q2: B''))])])\<close>
  by (simp add: handleSubmit_def getCurrentUser_def sample_parse_def autoGradeSubmission_def
      API_URL_def formattedSubmission_def array_map_idx_def Object_entries_def enumerate_eq_zip
      show_nat.simps digit_char_def newline_def initial_portal_def)

subsection \<open>Objects\<close>

lemma set_insert_index: "set (insert_index k v obj) = insert (k, v) (set obj)"
proof (induction obj)
  case Nil
  show ?case by simp
next
  case (Cons p obj)
  obtain k' v' where p: "p = (k', v')" by (cases p)
  show ?case unfolding p using Cons.IH by (simp add: insert_commute)
qed

lemma keys_insert_index:
  "set (map fst (insert_index k v obj)) = insert k (set (map fst obj))"
  by (simp add: set_insert_index)

lemma distinct_insert_index:
  "k \<notin> set (map fst obj) \<Longrightarrow> distinct (map fst obj)
     \<Longrightarrow> distinct (map fst (insert_index k v obj))"
proof (induction obj)
  case Nil
  show ?case by simp
next
  case (Cons p obj)
  obtain k' v' where p: "p = (k', v')" by (cases p)
  from Cons.prems have "k \<noteq> k'" "k \<notin> set (map fst obj)" "k' \<notin> set (map fst obj)"
    "distinct (map fst obj)"
    by (simp_all add: p)
  moreover from this Cons.IH have "distinct (map fst (insert_index k v obj))" by blast
  ultimately show ?case
    unfolding p using keys_insert_index [of k v obj] by simp
qed

lemma length_insert_index: "length (insert_index k v obj) = Suc (length obj)"
  by (induction obj) auto

lemma map_fst_update:
  "map (fst \<circ> (\<lambda>(k', v'). if k' = k then (k', v) else (k', v'))) obj = map fst obj"
  by (induction obj) auto

lemma keys_obj_define_existing:
  "has_key obj k \<Longrightarrow> map fst (obj_define obj k v) = map fst obj"
  by (simp add: obj_define_def map_fst_update)

lemma keys_obj_define:
  "set (map fst (obj_define obj k v)) = insert k (set (map fst obj))"
proof (cases "has_key obj k")
  case True
  then have "map fst (obj_define obj k v) = map fst obj"
    by (rule keys_obj_define_existing)
  with True show ?thesis by (auto simp: has_key_def)
next
  case False
  then show ?thesis
    using keys_insert_index [of k v obj] by (auto simp: obj_define_def)
qed

lemma distinct_obj_define:
  "distinct (map fst obj) \<Longrightarrow> distinct (map fst (obj_define obj k v))"
proof (cases "has_key obj k")
  case True
  then have "map fst (obj_define obj k v) = map fst obj"
    by (rule keys_obj_define_existing)
  then show "distinct (map fst obj) \<Longrightarrow> ?thesis" by simp
next
  case False
  then show "distinct (map fst obj) \<Longrightarrow> ?thesis"
    using distinct_insert_index [of k obj v] by (auto simp: obj_define_def has_key_def)
qed

lemma length_obj_define:
  "length (obj_define obj k v) = (if has_key obj k then length obj else Suc (length obj))"
  by (simp add: obj_define_def length_insert_index)

lemma values_update:
  "snd ` set (map (\<lambda>(k', v'). if k' = k then (k', v) else (k', v')) obj)
     \<subseteq> insert v (snd ` set obj)"
proof (induction obj)
  case Nil
  show ?case by simp
next
  case (Cons p obj)
  obtain k' v' where p: "p = (k', v')" by (cases p)
  show ?case unfolding p using Cons.IH by (simp; blast)
qed

lemma values_obj_define:
  "snd ` set (obj_define obj k v) \<subseteq> insert v (snd ` set obj)"
  using values_update [of k v obj]
  by (auto simp: obj_define_def set_insert_index)

lemma keys_obj_set:
  "set (map fst (obj_set obj k v))
     = (if k = ''__proto__'' \<and> \<not> has_key obj k then set (map fst obj)
        else insert k (set (map fst obj)))"
  by (simp add: obj_set_def keys_obj_define del: set_map)

lemma distinct_obj_set:
  "distinct (map fst obj) \<Longrightarrow> distinct (map fst (obj_set obj k v))"
  by (simp add: obj_set_def distinct_obj_define)

lemma values_obj_set:
  "snd ` set (obj_set obj k v) \<subseteq> insert v (snd ` set obj)"
  using values_obj_define [of obj k v] by (auto simp: obj_set_def)

lemma initialAnswers_snoc:
  "initialAnswers (qs @ [q]) = obj_set (initialAnswers qs) (q_id q) []"
  by (simp add: initialAnswers_def)

lemma keys_initialAnswers:
  "set (map fst (initialAnswers qs)) = q_id ` set qs - {''__proto__''}"
proof (induction qs rule: rev_induct)
  case Nil
  then show ?case by (simp add: initialAnswers_def)
next
  case (snoc q qs)
  have "\<not> has_key (initialAnswers qs) ''__proto__''"
    using snoc.IH by (simp add: has_key_def del: set_map)
  with snoc.IH show ?case
    by (auto simp add: initialAnswers_snoc keys_obj_set simp del: set_map)
qed

lemma distinct_initialAnswers: "distinct (map fst (initialAnswers qs))"
proof (induction qs rule: rev_induct)
  case Nil
  show ?case by (simp add: initialAnswers_def)
next
  case (snoc q qs)
  then show ?case by (simp only: initialAnswers_snoc distinct_obj_set)
qed

lemma values_initialAnswers: "snd ` set (initialAnswers qs) \<subseteq> {[]}"
proof (induction qs rule: rev_induct)
  case Nil
  then show ?case by (simp add: initialAnswers_def)
next
  case (snoc q qs)
  then show ?case
    using values_obj_set [of "initialAnswers qs" "q_id q" "[]"]
    by (simp only: initialAnswers_snoc) blast
qed

lemma length_initialAnswers:
  "length (initialAnswers qs) = card (q_id ` set qs - {''__proto__''})"
proof -
  have "length (initialAnswers qs) = length (map fst (initialAnswers qs))" by simp
  also have "\<dots> = card (set (map fst (initialAnswers qs)))"
    using distinct_initialAnswers [of qs] by (simp only: distinct_card)
  finally show ?thesis by (simp only: keys_initialAnswers)
qed

subsection \<open>Array indices and the order of keys\<close>

lemma is_digit_cases:
  "is_digit c \<longleftrightarrow> c = CHR ''0'' \<or> c = CHR ''1'' \<or> c = CHR ''2'' \<or> c = CHR ''3'' \<or> c = CHR ''4''
     \<or> c = CHR ''5'' \<or> c = CHR ''6'' \<or> c = CHR ''7'' \<or> c = CHR ''8'' \<or> c = CHR ''9''"
  by (simp add: is_digit_def)

lemma digit_char_digit_val: "is_digit c \<Longrightarrow> digit_char (digit_val c) = c"
  unfolding is_digit_cases by (elim disjE) (simp_all add: digit_char_def digit_val_def)

lemma digit_val_less: "is_digit c \<Longrightarrow> digit_val c < 10"
  unfolding is_digit_cases by (elim disjE) (simp_all add: digit_val_def)

lemma digit_val_pos: "is_digit c \<Longrightarrow> c \<noteq> CHR ''0'' \<Longrightarrow> 0 < digit_val c"
  unfolding is_digit_cases by (elim disjE) (simp_all add: digit_val_def)

lemma str_to_nat_snoc: "str_to_nat (s @ [c]) = 10 * str_to_nat s + digit_val c"
  by (simp add: str_to_nat_def)

lemma str_to_nat_pos:
  "s \<noteq> [] \<Longrightarrow> list_all is_digit s \<Longrightarrow> hd s \<noteq> CHR ''0'' \<Longrightarrow> 0 < str_to_nat s"
proof (induction s rule: rev_induct)
  case Nil
  then show ?case by simp
next
  case (snoc c s)
  show ?case
  proof (cases "s = []")
    case True
    with snoc.prems have "is_digit c" "c \<noteq> CHR ''0''" by simp_all
    then have "0 < digit_val c" by (rule digit_val_pos)
    with True show ?thesis by (simp add: str_to_nat_def)
  next
    case False
    with snoc.prems have "list_all is_digit s" "hd s \<noteq> CHR ''0''" by simp_all
    with False snoc.IH have "0 < str_to_nat s" by blast
    then show ?thesis by (simp add: str_to_nat_snoc)
  qed
qed

lemma show_nat_str_to_nat:
  "s \<noteq> [] \<Longrightarrow> list_all is_digit s \<Longrightarrow> s = ''0'' \<or> hd s \<noteq> CHR ''0''
     \<Longrightarrow> show_nat (str_to_nat s) = s"
proof (induction s rule: rev_induct)
  case Nil
  then show ?case by simp
next
  case (snoc c s)
  from snoc.prems have c: "is_digit c" by simp
  show ?case
  proof (cases "s = []")
    case True
    have "show_nat (digit_val c) = [digit_char (digit_val c)]"
      using digit_val_less [OF c] by (simp add: show_nat.simps)
    with True c show ?thesis
      by (simp add: str_to_nat_def digit_char_digit_val)
  next
    case False
    with snoc.prems have hd: "hd s \<noteq> CHR ''0''" and ds: "list_all is_digit s"
      by auto
    with False snoc.IH have ih: "show_nat (str_to_nat s) = s" by blast
    from False ds hd have "0 < str_to_nat s" by (rule str_to_nat_pos)
    then have big: "\<not> 10 * str_to_nat s + digit_val c < 10" by simp
    have d: "(10 * str_to_nat s + digit_val c) div 10 = str_to_nat s"
      using digit_val_less [OF c] by simp
    have m: "(10 * str_to_nat s + digit_val c) mod 10 = digit_val c"
      using digit_val_less [OF c] by simp
    have "show_nat (10 * str_to_nat s + digit_val c)
            = show_nat (str_to_nat s) @ [digit_char (digit_val c)]"
      by (subst show_nat.simps) (simp only: big d m if_False)
    then show ?thesis
      using ih c by (simp add: str_to_nat_snoc digit_char_digit_val)
  qed
qed

lemma array_index_canonical:
  "is_array_index s \<Longrightarrow> show_nat (str_to_nat s) = s"
  unfolding is_array_index_def
  by (elim conjE) (rule show_nat_str_to_nat)

lemma array_index_inj:
  assumes "is_array_index a" "is_array_index b" "str_to_nat a = str_to_nat b"
  shows "a = b"
proof -
  have "a = show_nat (str_to_nat a)" using assms(1) by (simp only: array_index_canonical)
  also have "\<dots> = show_nat (str_to_nat b)" by (simp only: assms(3))
  also have "\<dots> = b" using assms(2) by (simp only: array_index_canonical)
  finally show ?thesis .
qed

lemma index_keys_first_snoc:
  "index_keys_first (ks @ [k]) \<longleftrightarrow>
     index_keys_first ks
     \<and> (is_array_index k \<longrightarrow> (\<forall>k' \<in> set ks. is_array_index k' \<and> str_to_nat k' < str_to_nat k))"
  by (induction ks) (auto simp: list_all_iff)

lemma insert_index_last:
  "\<forall>k' \<in> set (map fst obj). is_array_index k' \<and> str_to_nat k' < str_to_nat k
     \<Longrightarrow> insert_index k v obj = obj @ [(k, v)]"
  by (induction obj) auto

lemma obj_define_new_last:
  assumes "wf_object (obj @ [(k, v)])"
  shows "obj_define obj k v = obj @ [(k, v)]"
proof -
  from assms have new: "\<not> has_key obj k"
    by (simp add: wf_object_def has_key_def)
  from assms have "index_keys_first (map fst obj @ [k])"
    by (simp add: wf_object_def)
  then have "is_array_index k
      \<Longrightarrow> \<forall>k' \<in> set (map fst obj). is_array_index k' \<and> str_to_nat k' < str_to_nat k"
    unfolding index_keys_first_snoc by blast
  then have "is_array_index k \<Longrightarrow> insert_index k v obj = obj @ [(k, v)]"
    by (rule insert_index_last)
  with new show ?thesis by (simp add: obj_define_def)
qed

lemma wf_object_butlast: "wf_object (obj @ [p]) \<Longrightarrow> wf_object obj"
  by (simp add: wf_object_def index_keys_first_snoc)

lemma obj_spread_snoc: "obj_spread (obj @ [(k, v)]) = obj_define (obj_spread obj) k v"
  by (simp add: obj_spread_def)

lemma obj_spread_wf: "wf_object obj \<Longrightarrow> obj_spread obj = obj"
proof (induction obj rule: rev_induct)
  case Nil
  show ?case by (simp add: obj_spread_def)
next
  case (snoc p obj)
  obtain k v where p: "p = (k, v)" by (cases p)
  from snoc.prems have "wf_object obj" by (rule wf_object_butlast)
  with snoc.IH have "obj_spread obj = obj" by blast
  then show ?case
    using snoc.prems unfolding p by (simp add: obj_spread_snoc obj_define_new_last)
qed

lemma index_keys_first_insert_index:
  assumes "index_keys_first (map fst obj)" "is_array_index k" "k \<notin> set (map fst obj)"
  shows "index_keys_first (map fst (insert_index k v obj))"
  using assms
proof (induction obj)
  case Nil
  then show ?case by simp
next
  case (Cons p obj)
  obtain k' v' where p: "p = (k', v')" by (cases p)
  from Cons.prems have tail: "index_keys_first (map fst obj)" and new: "k \<notin> set (map fst obj)"
    and ne: "k \<noteq> k'"
    and hd: "\<forall>x \<in> set (map fst obj). is_array_index x \<longrightarrow> is_array_index k' \<and> str_to_nat k' < str_to_nat x"
    by (auto simp: p list_all_iff)
  show ?case
  proof (cases "is_array_index k' \<and> str_to_nat k' < str_to_nat k")
    case True
    moreover from Cons.IH tail Cons.prems(2) new
    have "index_keys_first (map fst (insert_index k v obj))" by blast
    ultimately show ?thesis
      unfolding p using hd by (simp add: list_all_iff set_insert_index)
  next
    case False
    have "str_to_nat k < str_to_nat x" if x: "x = k' \<or> x \<in> set (map fst obj)" "is_array_index x" for x
    proof -
      from x hd have k': "is_array_index k'" and le: "str_to_nat k' \<le> str_to_nat x" by auto
      with False have "str_to_nat k \<le> str_to_nat k'" by simp
      moreover have "str_to_nat k \<noteq> str_to_nat k'"
        using array_index_inj [OF Cons.prems(2) k'] ne by blast
      ultimately show ?thesis using le by simp
    qed
    then have "list_all (\<lambda>x. is_array_index x \<longrightarrow> is_array_index k \<and> str_to_nat k < str_to_nat x)
                 (k' # map fst obj)"
      using Cons.prems(2) by (simp add: list_all_iff)
    moreover have "insert_index k v ((k', v') # obj) = (k, v) # (k', v') # obj"
      using False by (simp only: insert_index.simps if_False)
    moreover from Cons.prems(1) have "index_keys_first (k' # map fst obj)"
      by (simp add: p)
    ultimately show ?thesis
      unfolding p by (simp del: insert_index.simps index_keys_first.simps
                           add: index_keys_first.simps(2) [of k])
  qed
qed

lemma wf_object_obj_define: "wf_object obj \<Longrightarrow> wf_object (obj_define obj k v)"
proof (cases "has_key obj k")
  case True
  then have "map fst (obj_define obj k v) = map fst obj" by (rule keys_obj_define_existing)
  then show "wf_object obj \<Longrightarrow> ?thesis" by (simp add: wf_object_def)
next
  case False
  assume wf: "wf_object obj"
  then have d: "distinct (map fst (obj_define obj k v))"
    by (simp add: wf_object_def distinct_obj_define)
  show ?thesis
  proof (cases "is_array_index k")
    case True
    with False wf have "index_keys_first (map fst (insert_index k v obj))"
      by (intro index_keys_first_insert_index) (simp_all add: wf_object_def has_key_def)
    with d False True show ?thesis by (simp add: wf_object_def obj_define_def)
  next
    case no: False
    with False wf have "index_keys_first (map fst (obj @ [(k, v)]))"
      by (simp add: index_keys_first_snoc wf_object_def)
    with d False no show ?thesis by (simp add: wf_object_def obj_define_def)
  qed
qed

lemma wf_object_obj_set: "wf_object obj \<Longrightarrow> wf_object (obj_set obj k v)"
  by (simp add: obj_set_def wf_object_obj_define)

lemma wf_initialAnswers: "wf_object (initialAnswers qs)"
proof (induction qs rule: rev_induct)
  case Nil
  show ?case by (simp add: initialAnswers_def wf_object_def)
next
  case (snoc q qs)
  then show ?case by (simp only: initialAnswers_snoc wf_object_obj_set)
qed

text \<open>Array indices come first, in numeric order, whatever the order of the questions.\<close>

lemma initialAnswers_key_order_example:
  "map fst (initialAnswers
      [question_two\<lparr>q_id := ''b''\<rparr>, question_two\<lparr>q_id := ''10''\<rparr>,
       question_two\<lparr>q_id := ''a''\<rparr>, question_two\<lparr>q_id := ''9''\<rparr>,
       question_two\<lparr>q_id := ''07''\<rparr>])
     = [''9'', ''10'', ''b'', ''a'', ''07'']"
  by (simp add: initialAnswers_def obj_set_def obj_define_def has_key_def is_array_index_def is_digit_def
        str_to_nat_def digit_val_def question_two_def)

subsection \<open>Loading\<close>

text \<open>
  C8. In the Idle state (step 1), load moves to Loaded (step 2) with the fetched data
  when the identifier is not empty and \<^verbatim>\<open>getAssignment\<close> succeeds; with an empty
  identifier, or when \<^verbatim>\<open>getAssignment\<close> fails, it stays in Idle, shows one alert and
  leaves the held assignment data and the Answer Map as they were. It reaches Loaded
  only on a successful \<^verbatim>\<open>getAssignment\<close>. The same holds in the earlier revision of
  the portal, for its assignment data and its answer text.
\<close>

theorem handleLoadAssignment_idle:
  assumes "step st = 1" and "step0 st0 = 1"
  shows "((assignmentId st \<noteq> [] \<and> fetch (trim (assignmentId st)) = Inr d
            \<longrightarrow> step (fst (handleLoadAssignment fetch st)) = 2
                \<and> assignmentData (fst (handleLoadAssignment fetch st)) = Some d
                \<and> answers (fst (handleLoadAssignment fetch st)) = initialAnswers (questions d))
         \<and> (assignmentId st = [] \<or> (\<exists>e. fetch (trim (assignmentId st)) = Inl e)
            \<longrightarrow> step (fst (handleLoadAssignment fetch st)) = 1
                \<and> (\<exists>msg. snd (handleLoadAssignment fetch st) = [Alert msg])
                \<and> assignmentData (fst (handleLoadAssignment fetch st)) = assignmentData st
                \<and> answers (fst (handleLoadAssignment fetch st)) = answers st)
         \<and> (step (fst (handleLoadAssignment fetch st)) = 2
            \<longrightarrow> assignmentId st \<noteq> [] \<and> (\<exists>d'. fetch (trim (assignmentId st)) = Inr d')))
         \<and> ((assignmentId0 st0 \<noteq> [] \<and> fetch (assignmentId0 st0) = Inr d
            \<longrightarrow> step0 (fst (handleLoadAssignment_rev0 fetch st0)) = 2
                \<and> assignmentData0 (fst (handleLoadAssignment_rev0 fetch st0)) = Some d)
         \<and> (assignmentId0 st0 = [] \<or> (\<exists>e. fetch (assignmentId0 st0) = Inl e)
            \<longrightarrow> step0 (fst (handleLoadAssignment_rev0 fetch st0)) = 1
                \<and> (\<exists>msg. snd (handleLoadAssignment_rev0 fetch st0) = [Alert msg])
                \<and> assignmentData0 (fst (handleLoadAssignment_rev0 fetch st0)) = assignmentData0 st0
                \<and> answer0 (fst (handleLoadAssignment_rev0 fetch st0)) = answer0 st0)
         \<and> (step0 (fst (handleLoadAssignment_rev0 fetch st0)) = 2
            \<longrightarrow> assignmentId0 st0 \<noteq> [] \<and> (\<exists>d'. fetch (assignmentId0 st0) = Inr d')))"
proof -
  have current:
    "(assignmentId st \<noteq> [] \<and> fetch (trim (assignmentId st)) = Inr d
            \<longrightarrow> step (fst (handleLoadAssignment fetch st)) = 2
                \<and> assignmentData (fst (handleLoadAssignment fetch st)) = Some d
                \<and> answers (fst (handleLoadAssignment fetch st)) = initialAnswers (questions d))
         \<and> (assignmentId st = [] \<or> (\<exists>e. fetch (trim (assignmentId st)) = Inl e)
            \<longrightarrow> step (fst (handleLoadAssignment fetch st)) = 1
                \<and> (\<exists>msg. snd (handleLoadAssignment fetch st) = [Alert msg])
                \<and> assignmentData (fst (handleLoadAssignment fetch st)) = assignmentData st
                \<and> answers (fst (handleLoadAssignment fetch st)) = answers st)
         \<and> (step (fst (handleLoadAssignment fetch st)) = 2
            \<longrightarrow> assignmentId st \<noteq> [] \<and> (\<exists>d'. fetch (trim (assignmentId st)) = Inr d'))"
    using assms(1) by (auto simp add: handleLoadAssignment_def Let_def split: sum.split)
  have earlier:
    "(assignmentId0 st0 \<noteq> [] \<and> fetch (assignmentId0 st0) = Inr d
            \<longrightarrow> step0 (fst (handleLoadAssignment_rev0 fetch st0)) = 2
                \<and> assignmentData0 (fst (handleLoadAssignment_rev0 fetch st0)) = Some d)
         \<and> (assignmentId0 st0 = [] \<or> (\<exists>e. fetch (assignmentId0 st0) = Inl e)
            \<longrightarrow> step0 (fst (handleLoadAssignment_rev0 fetch st0)) = 1
                \<and> (\<exists>msg. snd (handleLoadAssignment_rev0 fetch st0) = [Alert msg])
                \<and> assignmentData0 (fst (handleLoadAssignment_rev0 fetch st0)) = assignmentData0 st0
                \<and> answer0 (fst (handleLoadAssignment_rev0 fetch st0)) = answer0 st0)
         \<and> (step0 (fst (handleLoadAssignment_rev0 fetch st0)) = 2
            \<longrightarrow> assignmentId0 st0 \<noteq> [] \<and> (\<exists>d'. fetch (assignmentId0 st0) = Inr d'))"
    using assms(2) by (auto simp add: handleLoadAssignment_rev0_def Let_def split: sum.split)
  from current earlier show ?thesis by (rule conjI)
qed

theorem handleLoadAssignment_idle_witness:
  "step (fst (handleLoadAssignment (getAssignment sample_backend)
                (initial_portal\<lparr>assignmentId := '' X ''\<rparr>))) = 2
   \<and> assignmentData (fst (handleLoadAssignment (getAssignment sample_backend)
                (initial_portal\<lparr>assignmentId := '' X ''\<rparr>))) = Some assignment_X
   \<and> handleLoadAssignment (getAssignment sample_backend) (initial_portal\<lparr>assignmentId := ''Y''\<rparr>)
       = (initial_portal\<lparr>assignmentId := ''Y''\<rparr>, [Alert ''Assignment not found! Check the ID.''])
   \<and> handleLoadAssignment (getAssignment sample_backend) initial_portal
       = (initial_portal, [Alert ''Please enter an ID''])
   \<and> step0 (fst (handleLoadAssignment_rev0 (getAssignment sample_backend)
                (initial_portal_rev0\<lparr>assignmentId0 := ''X''\<rparr>))) = 2
   \<and> handleLoadAssignment_rev0 (getAssignment sample_backend) initial_portal_rev0
       = (initial_portal_rev0, [Alert ''Please enter an ID''])"
  using handleLoadAssignment_idle
      [of "initial_portal\<lparr>assignmentId := '' X ''\<rparr>" "initial_portal_rev0\<lparr>assignmentId0 := ''X''\<rparr>"
          "getAssignment sample_backend" assignment_X]
    handleLoadAssignment_idle
      [of "initial_portal\<lparr>assignmentId := ''Y''\<rparr>" initial_portal_rev0
          "getAssignment sample_backend"]
    handleLoadAssignment_idle [of initial_portal initial_portal_rev0 "getAssignment sample_backend"]
  by (simp add: initial_portal_def initial_portal_rev0_def handleLoadAssignment_def
        handleLoadAssignment_rev0_def getAssignment_def sample_backend_def
        trim_def is_whitespace_def)

text \<open>
  C1, as stated, fails for an assignment whose questions share an identifier: the two
  questions of \<open>assignment_T\<close> seed one key.
\<close>

theorem load_duplicate_ids_counterexample:
  "getAssignment sample_backend ''T'' = Inr assignment_T
   \<and> length (questions assignment_T) = 2
   \<and> answers (fst (handleLoadAssignment (getAssignment sample_backend)
                (initial_portal\<lparr>assignmentId := ''T''\<rparr>))) = [(''q1'', [])]"
  by (simp add: initial_portal_def handleLoadAssignment_def getAssignment_def sample_backend_def
        trim_def is_whitespace_def assignment_T_def assignment_X_def question_one_def
        question_one_again_def initialAnswers_def obj_set_def obj_define_def has_key_def is_array_index_def
        is_digit_def)

text \<open>
  C1, amended. After a successful load of an assignment with N questions, none of which
  has the identifier \<^verbatim>\<open>__proto__\<close>, the keys of the Answer Map are exactly the
  question identifiers, each key once and each mapped to the empty string, so there are
  as many keys as distinct identifiers: N when the identifiers are pairwise distinct.
  With zero questions the map is empty.
\<close>

theorem load_seeds_answers:
  assumes "assignmentId st \<noteq> []" and "fetch (trim (assignmentId st)) = Inr d"
    and "''__proto__'' \<notin> q_id ` set (questions d)"
  shows "set (map fst (answers (fst (handleLoadAssignment fetch st)))) = q_id ` set (questions d)
         \<and> distinct (map fst (answers (fst (handleLoadAssignment fetch st))))
         \<and> snd ` set (answers (fst (handleLoadAssignment fetch st))) \<subseteq> {[]}
         \<and> length (answers (fst (handleLoadAssignment fetch st))) = card (q_id ` set (questions d))
         \<and> (distinct (map q_id (questions d))
              \<longrightarrow> length (answers (fst (handleLoadAssignment fetch st))) = length (questions d))
         \<and> (questions d = [] \<longrightarrow> answers (fst (handleLoadAssignment fetch st)) = [])"
proof -
  have loaded: "answers (fst (handleLoadAssignment fetch st)) = initialAnswers (questions d)"
    using assms(1,2) by (simp add: handleLoadAssignment_def)
  have ids: "q_id ` set (questions d) - {''__proto__''} = q_id ` set (questions d)"
    using assms(3) by blast
  have "distinct (map q_id (questions d)) \<Longrightarrow> card (q_id ` set (questions d)) = length (questions d)"
    using distinct_card [of "map q_id (questions d)"] by simp
  moreover have "initialAnswers [] = []"
    by (simp add: initialAnswers_def)
  ultimately show ?thesis
    unfolding loaded
    using keys_initialAnswers [of "questions d"] distinct_initialAnswers [of "questions d"]
      values_initialAnswers [of "questions d"] length_initialAnswers [of "questions d"]
    unfolding ids
    by auto
qed

theorem load_seeds_answers_witness:
  "answers (fst (handleLoadAssignment (getAssignment sample_backend)
                (initial_portal\<lparr>assignmentId := ''X''\<rparr>))) = [(''q1'', []), (''q2'', [])]
   \<and> length (questions assignment_X) = 2
   \<and> distinct (map q_id (questions assignment_X))"
  using load_seeds_answers
      [of "initial_portal\<lparr>assignmentId := ''X''\<rparr>" "getAssignment sample_backend" assignment_X]
  by (simp add: initial_portal_def handleLoadAssignment_def getAssignment_def sample_backend_def
        trim_def is_whitespace_def assignment_X_def question_one_def question_two_def
        initialAnswers_def obj_set_def obj_define_def has_key_def is_array_index_def is_digit_def)

subsection \<open>Answering\<close>

lemma question_inputs_id:
  "Radio questionId opt \<in> set (question_inputs q) \<or> Textarea questionId \<in> set (question_inputs q)
     \<Longrightarrow> questionId = q_id q"
  by (auto simp: question_inputs_def split: option.splits if_splits)

lemma rendered_inputs_id:
  assumes "Radio questionId opt \<in> set (rendered_inputs st)
           \<or> Textarea questionId \<in> set (rendered_inputs st)"
  shows "\<exists>d. step st = 2 \<and> assignmentData st = Some d \<and> questionId \<in> q_id ` set (questions d)"
proof -
  have s2: "step st = 2"
    using assms by (cases "step st = 2") (simp_all add: rendered_inputs_def)
  have "assignmentData st \<noteq> None"
    using assms s2 by (cases "assignmentData st") (simp_all add: rendered_inputs_def)
  then obtain d where "assignmentData st = Some d" by blast
  with s2 have d: "step st = 2" "assignmentData st = Some d" by simp_all
  with assms obtain q where "q \<in> set (questions d)"
    and "Radio questionId opt \<in> set (question_inputs q)
         \<or> Textarea questionId \<in> set (question_inputs q)"
    by (auto simp: rendered_inputs_def)
  then have "questionId \<in> q_id ` set (questions d)"
    using question_inputs_id by blast
  with d show ?thesis by blast
qed

lemma handleAnswerChange_existing:
  assumes "wf_object (answers st)" "has_key (answers st) questionId"
  shows "map fst (answers (handleAnswerChange questionId val st)) = map fst (answers st)"
    and "wf_object (answers (handleAnswerChange questionId val st))"
    and "answers (handleAnswerChange questionId val st)
           = map (\<lambda>(k, v). if k = questionId then (k, val) else (k, v)) (answers st)"
  using assms
  by (simp_all add: handleAnswerChange_def obj_spread_wf keys_obj_define_existing wf_object_obj_define)
     (simp add: obj_define_def)

lemma answer_update_keeps_keys:
  assumes "answer_update st st'" "answers_match d st"
  shows "answers_match d st' \<and> map fst (answers st') = map fst (answers st)"
  using assms
proof (cases rule: answer_update.cases)
  case (radio_change questionId opt)
  then have "questionId \<in> q_id ` set (questions d)"
    using rendered_inputs_id [of questionId opt st] assms(2) by (auto simp: answers_match_def)
  with assms(2) have "has_key (answers st) questionId"
    by (simp add: answers_match_def has_key_def del: set_map)
  with assms(2) radio_change show ?thesis
    using handleAnswerChange_existing(1,2) [of st questionId opt]
    by (simp add: answers_match_def del: set_map) (simp add: handleAnswerChange_def)
next
  case (textarea_change questionId val)
  then have "questionId \<in> q_id ` set (questions d)"
    using rendered_inputs_id [of questionId undefined st] assms(2) by (auto simp: answers_match_def)
  with assms(2) have "has_key (answers st) questionId"
    by (simp add: answers_match_def has_key_def del: set_map)
  with assms(2) textarea_change show ?thesis
    using handleAnswerChange_existing(1,2) [of st questionId val]
    by (simp add: answers_match_def del: set_map) (simp add: handleAnswerChange_def)
qed

lemma answer_updates_keep_match:
  assumes "answer_update\<^sup>*\<^sup>* st st'" "answers_match d st"
  shows "answers_match d st' \<and> map fst (answers st') = map fst (answers st)"
  using assms
proof (induction rule: rtranclp_induct)
  case base
  then show ?case by simp
next
  case (step y z)
  then show ?case using answer_update_keeps_keys [of y z d] by simp
qed

lemma loaded_answers_match:
  assumes "assignmentId st \<noteq> []" "fetch (trim (assignmentId st)) = Inr d"
    and "''__proto__'' \<notin> q_id ` set (questions d)"
  shows "answers_match d (fst (handleLoadAssignment fetch st))"
proof -
  have "q_id ` set (questions d) - {''__proto__''} = q_id ` set (questions d)"
    using assms(3) by blast
  with assms(1,2) show ?thesis
    by (simp add: handleLoadAssignment_def answers_match_def wf_initialAnswers
          keys_initialAnswers del: set_map)
qed

text \<open>
  For an assignment none of whose questions has the identifier \<^verbatim>\<open>__proto__\<close>: after
  a successful load, every sequence of answer updates (each one the \<^verbatim>\<open>onChange\<close> of
  an input that the page shows) leaves the keys of the Answer Map as they were seeded,
  in number and in order; they stay the identifiers of the questions.
\<close>

lemma answer_updates_keep_seeded_keys:
  assumes "assignmentId st \<noteq> []" and "fetch (trim (assignmentId st)) = Inr d"
    and "''__proto__'' \<notin> q_id ` set (questions d)"
    and "answer_update\<^sup>*\<^sup>* (fst (handleLoadAssignment fetch st)) st'"
  shows "map fst (answers st') = map fst (answers (fst (handleLoadAssignment fetch st)))
         \<and> set (map fst (answers st')) = q_id ` set (questions d)
         \<and> length (answers st') = length (answers (fst (handleLoadAssignment fetch st)))"
proof -
  have m: "answers_match d (fst (handleLoadAssignment fetch st))"
    using assms(1,2,3) by (rule loaded_answers_match)
  with assms(4) have "answers_match d st'"
    and keys: "map fst (answers st') = map fst (answers (fst (handleLoadAssignment fetch st)))"
    using answer_updates_keep_match by blast+
  then have "set (map fst (answers st')) = q_id ` set (questions d)"
    by (simp add: answers_match_def del: set_map)
  moreover from keys have "length (answers st') = length (answers (fst (handleLoadAssignment fetch st)))"
    using length_map [of fst "answers st'"] by (metis length_map)
  ultimately show ?thesis using keys by blast
qed

lemmas example_defs =
  initial_portal_def handleLoadAssignment_def getAssignment_def sample_backend_def
  trim_def is_whitespace_def assignment_X_def question_one_def question_two_def
  initialAnswers_def obj_set_def obj_define_def has_key_def is_array_index_def is_digit_def
  handleAnswerChange_def obj_spread_def rendered_inputs_def question_inputs_def

lemma answer_updates_keep_seeded_keys_example:
  "answers (handleAnswerChange ''q2'' ''ATP and NADPH''
             (handleAnswerChange ''q1'' ''Light''
                (fst (handleLoadAssignment (getAssignment sample_backend)
                        (initial_portal\<lparr>assignmentId := ''X''\<rparr>)))))
     = [(''q1'', ''Light''), (''q2'', ''ATP and NADPH'')]
   \<and> map fst (answers (fst (handleLoadAssignment (getAssignment sample_backend)
                        (initial_portal\<lparr>assignmentId := ''X''\<rparr>)))) = [''q1'', ''q2'']"
proof -
  let ?st0 = "initial_portal\<lparr>assignmentId := ''X''\<rparr>"
  let ?st1 = "fst (handleLoadAssignment (getAssignment sample_backend) ?st0)"
  let ?st2 = "handleAnswerChange ''q1'' ''Light'' ?st1"
  let ?st3 = "handleAnswerChange ''q2'' ''ATP and NADPH'' ?st2"
  have "Radio ''q1'' ''Light'' \<in> set (rendered_inputs ?st1)"
    by (simp add: example_defs)
  then have one: "answer_update ?st1 ?st2"
    by (rule radio_change)
  have "Textarea ''q2'' \<in> set (rendered_inputs ?st2)"
    by (simp add: example_defs)
  then have "answer_update ?st2 ?st3"
    by (rule textarea_change)
  with one have steps: "answer_update\<^sup>*\<^sup>* ?st1 ?st3"
    by (simp only: rtranclp.rtrancl_into_rtrancl r_into_rtranclp)
  have "assignmentId ?st0 \<noteq> []"
    "getAssignment sample_backend (trim (assignmentId ?st0)) = Inr assignment_X"
    "''__proto__'' \<notin> q_id ` set (questions assignment_X)"
    by (simp_all add: example_defs)
  from answer_updates_keep_seeded_keys [OF this steps] show ?thesis
    by (simp add: example_defs)
qed

text \<open>
  The handler itself does not look at the key: with an identifier that no input
  carries it would create a key.
\<close>

lemma handleAnswerChange_unknown_key_example:
  "answers (handleAnswerChange ''zz'' ''v''
              (fst (handleLoadAssignment (getAssignment sample_backend)
                      (initial_portal\<lparr>assignmentId := ''X''\<rparr>))))
     = [(''q1'', []), (''q2'', []), (''zz'', ''v'')]"
  by (simp add: example_defs)

text \<open>
  C9 says that an answer update never adds a key to the Answer Map. For a question
  with the identifier \<^verbatim>\<open>__proto__\<close> the code does add one: the load seeds no key for
  that question, the page shows its text area, and the first update through that
  text area creates the key.
\<close>

theorem answer_update_adds_proto_key:
  "getAssignment proto_backend ''P'' = Inr assignment_P
   \<and> map q_id (questions assignment_P) = [''__proto__'']
   \<and> answers (fst (handleLoadAssignment (getAssignment proto_backend)
                (initial_portal\<lparr>assignmentId := ''P''\<rparr>))) = []
   \<and> rendered_inputs (fst (handleLoadAssignment (getAssignment proto_backend)
                (initial_portal\<lparr>assignmentId := ''P''\<rparr>))) = [Textarea ''__proto__'']
   \<and> answers (handleAnswerChange ''__proto__'' ''x''
               (fst (handleLoadAssignment (getAssignment proto_backend)
                  (initial_portal\<lparr>assignmentId := ''P''\<rparr>)))) = [(''__proto__'', ''x'')]"
  by (simp add: example_defs proto_backend_def assignment_P_def question_proto_def)

section \<open>The assignment list\<close>


lemma string_includes_iff: "string_includes t s \<longleftrightarrow> occurs_in s t"
  unfolding occurs_in_def
proof (induction t)
  case Nil
  show ?case by auto
next
  case (Cons c cs)
  have "(\<exists>before after. c # cs = before @ s @ after)
          \<longleftrightarrow> prefix s (c # cs) \<or> (\<exists>before after. cs = before @ s @ after)"
  proof
    assume "\<exists>before after. c # cs = before @ s @ after"
    then obtain b a where ba: "c # cs = b @ s @ a" by blast
    show "prefix s (c # cs) \<or> (\<exists>before after. cs = before @ s @ after)"
    proof (cases b)
      case Nil
      with ba show ?thesis by (simp add: prefix_def)
    next
      case (Cons x b')
      with ba have "cs = b' @ s @ a" by simp
      then show ?thesis by blast
    qed
  next
    assume "prefix s (c # cs) \<or> (\<exists>before after. cs = before @ s @ after)"
    then show "\<exists>before after. c # cs = before @ s @ after"
    proof
      assume "prefix s (c # cs)"
      then obtain a where "c # cs = s @ a" by (auto simp: prefix_def)
      then have "c # cs = [] @ s @ a" by simp
      then show ?thesis by blast
    next
      assume "\<exists>before after. cs = before @ s @ after"
      then obtain b a where "cs = b @ s @ a" by blast
      then have "c # cs = (c # b) @ s @ a" by simp
      then show ?thesis by blast
    qed
  qed
  with Cons.IH show ?case by simp
qed



text \<open>
  Where lower-casing works on the three texts unit by unit, as it does on ASCII texts,
  the search is a substring match up to the case of letters: some stretch of the title
  or of the subject has, unit for unit, the lower-case form of the search text.
\<close>

lemma string_includes_unitwise:
  "string_includes (map f t) (map f s)
     \<longleftrightarrow> (\<exists>before mid after. t = before @ mid @ after \<and> map f mid = map f s)"
proof
  assume "string_includes (map f t) (map f s)"
  then obtain b a where "map f t = b @ map f s @ a"
    unfolding string_includes_iff occurs_in_def by blast
  then obtain b' r where t: "t = b' @ r" and "map f s @ a = map f r"
    unfolding map_eq_append_conv by metis
  then obtain m a' where r: "r = m @ a'" and "map f m = map f s"
    unfolding append_eq_map_conv by metis
  with t show "\<exists>before mid after. t = before @ mid @ after \<and> map f mid = map f s"
    by blast
next
  assume "\<exists>before mid after. t = before @ mid @ after \<and> map f mid = map f s"
  then obtain b m a where "t = b @ m @ a" and "map f m = map f s"
    by blast
  then have "map f t = map f b @ map f s @ map f a"
    by simp
  then show "string_includes (map f t) (map f s)"
    unfolding string_includes_iff occurs_in_def by blast
qed

lemma matchesSearch_unitwise:
  assumes "toLowerCase (title a) = map f (title a)"
    and "toLowerCase (subject a) = map f (subject a)"
    and "toLowerCase searchTerm = map f searchTerm"
  shows "matchesSearch toLowerCase searchTerm a
           \<longleftrightarrow> (\<exists>before mid after. title a = before @ mid @ after \<and> map f mid = map f searchTerm)
               \<or> (\<exists>before mid after. subject a = before @ mid @ after
                                       \<and> map f mid = map f searchTerm)"
  by (simp only: matchesSearch_def assms string_includes_unitwise)





end
